theory Spec2Isabelle
  imports Complex_Main
begin

section \<open>Data model (types/conversion.types.ts)\<close>

text \<open>
  The conversion queue hook \<^verbatim>\<open>useConversionQueue\<close> keeps a React state cell
  \<^verbatim>\<open>queue\<close> and two reference cells \<^verbatim>\<open>processingRef\<close> and \<^verbatim>\<open>autoStartRef\<close>.
  Timestamps (\<^verbatim>\<open>new Date()\<close>) are natural numbers handed in by the environment.  The
  descriptors a job carries (source file, target format, quality profile) are never
  inspected by the hook and are kept as strings.

  The development has two layers.  The first gives, for each operation, what its state
  updater (and its assignments to the reference cells) does to the state it is applied to.
  The second gives when React applies an updater: a call of \<^verbatim>\<open>setQueue\<close> puts the
  updater in the queue of pending updates, and the state cell changes when the component
  renders.
\<close>

datatype ConversionStatus =
  queued | initializing | converting | finalizing | completed | failed | cancelled

datatype ConversionErrorType =
  VALIDATION_ERROR | UNSUPPORTED_FORMAT | BROWSER_NOT_SUPPORTED | INVALID_FILE
  | OUT_OF_MEMORY | MEDIABUNNY_ERROR | CANCELLED | UNKNOWN_ERROR

text \<open>A JavaScript \<^verbatim>\<open>Error\<close> object: a plain \<^verbatim>\<open>Error(message)\<close> or the repository's
  \<^verbatim>\<open>ConversionError(type, userMessage)\<close>.  A \<^verbatim>\<open>throw\<close> may carry any value.\<close>

datatype JSError = Error string | ConversionError ConversionErrorType string

datatype Thrown = ThrownError JSError | ThrownOther string

type_synonym Date = nat

record ConversionResult =
  blob :: string
  filename :: string
  sizeBytes :: nat
  url :: "string option"

record ConversionJob =
  jobId :: string
  sourceFile :: string
  targetFormat :: string
  qualityProfile :: string
  status :: ConversionStatus
  progress :: int
  error :: "JSError option"
  result :: "ConversionResult option"
  startedAt :: "Date option"
  completedAt :: "Date option"
  estimatedDuration :: "nat option"

record ConversionQueue =
  jobs :: "ConversionJob list"
  activeJob :: "ConversionJob option"
  maxConcurrent :: nat

record QueueStatistics =
  totalJobs :: nat
  completedCount :: nat
  failedCount :: nat
  queuedCount :: nat
  activeCount :: nat
  overallProgress :: int
  isProcessing :: bool
  isComplete :: bool

text \<open>\<^verbatim>\<open>Partial<ConversionJob>\<close> as the hook uses it: the fields an update may carry.
  \<open>None\<close> is an absent field; the hook never passes an explicit \<^verbatim>\<open>null\<close>.\<close>

record JobUpdates =
  upd_status :: "ConversionStatus option"
  upd_progress :: "int option"
  upd_error :: "JSError option"
  upd_result :: "ConversionResult option"
  upd_completedAt :: "Date option"

definition noUpdates :: JobUpdates where
  "noUpdates = \<lparr>upd_status = None, upd_progress = None, upd_error = None,
                 upd_result = None, upd_completedAt = None\<rparr>"

text \<open>The object spread \<^verbatim>\<open>{ ...j, ...updates }\<close>.\<close>

definition merge :: "ConversionJob \<Rightarrow> JobUpdates \<Rightarrow> ConversionJob" where
  "merge j u = j\<lparr>
     status := (case upd_status u of None \<Rightarrow> status j | Some s \<Rightarrow> s),
     progress := (case upd_progress u of None \<Rightarrow> progress j | Some p \<Rightarrow> p),
     error := (case upd_error u of None \<Rightarrow> error j | Some e \<Rightarrow> Some e),
     result := (case upd_result u of None \<Rightarrow> result j | Some r \<Rightarrow> Some r),
     completedAt := (case upd_completedAt u of None \<Rightarrow> completedAt j | Some d \<Rightarrow> Some d)\<rparr>"

text \<open>
  \<^verbatim>\<open>Math.round\<close> of a number: the nearest integer, a half rounded towards plus
  infinity.  The argument is the value of the double that the hook passes.
\<close>

definition Math_round :: "rat \<Rightarrow> int" where
  "Math_round x = \<lfloor>x + 1 / 2\<rfloor>"

section \<open>The hook's state\<close>

text \<open>
  An async function of the hook that has reached an \<^verbatim>\<open>await\<close> is kept as a suspended
  call, with the variables it captured:
  \<^item> \<open>AwaitConvert nextJob\<close>: \<^verbatim>\<open>startQueue\<close> at \<^verbatim>\<open>await convertService(...)\<close>;
  \<^item> \<open>AwaitCancel jobId\<close>: \<^verbatim>\<open>cancelJob\<close> at \<^verbatim>\<open>await cancelService(jobId)\<close>;
  \<^item> \<open>AwaitCancelJob snapshot inner jobId rest\<close>: \<^verbatim>\<open>cancelAll\<close> at
    \<^verbatim>\<open>await cancelJob(job.id)\<close>, where \<open>snapshot\<close> is the \<^verbatim>\<open>queue.jobs\<close> both closures
    captured, \<open>inner\<close> tells whether the inner \<^verbatim>\<open>cancelJob\<close> is itself still waiting for
    \<^verbatim>\<open>cancelService\<close>, and \<open>rest\<close> is what is left of \<^verbatim>\<open>jobsToCancel\<close>.
  The calls made to the conversion service are logged in \<open>convertCalls\<close> and
  \<open>cancelCalls\<close>.
\<close>

datatype Suspended =
    AwaitConvert ConversionJob
  | AwaitCancel string
  | AwaitCancelJob "ConversionJob list" bool string "ConversionJob list"

record HookState =
  queue :: ConversionQueue
  processingRef :: bool
  autoStartRef :: bool
  suspended :: "Suspended list"
  convertCalls :: "ConversionJob list"
  cancelCalls :: "string list"

definition initialQueue :: ConversionQueue where
  "initialQueue = \<lparr>jobs = [], activeJob = None, maxConcurrent = 1\<rparr>"

definition initialState :: HookState where
  "initialState = \<lparr>queue = initialQueue, processingRef = False, autoStartRef = False,
                    suspended = [], convertCalls = [], cancelCalls = []\<rparr>"

section \<open>The state updaters of useConversionQueue\<close>

text \<open>
  What each operation's updater does to the state it is applied to.  \<open>addJobs\<close> and
  \<open>clearAll\<close> include the assignment to the reference cell that the operation makes.
\<close>

definition addJob :: "ConversionJob \<Rightarrow> HookState \<Rightarrow> HookState" where
  "addJob job st = st\<lparr>queue := (queue st)\<lparr>jobs := jobs (queue st) @ [job]\<rparr>\<rparr>"

definition addJobs :: "ConversionJob list \<Rightarrow> bool \<Rightarrow> HookState \<Rightarrow> HookState" where
  "addJobs js autoStart st =
     st\<lparr>autoStartRef := autoStart, queue := (queue st)\<lparr>jobs := jobs (queue st) @ js\<rparr>\<rparr>"

definition removeJob :: "string \<Rightarrow> HookState \<Rightarrow> HookState" where
  "removeJob jid st = st\<lparr>queue := (queue st)\<lparr>
     jobs := filter (\<lambda>j. jobId j \<noteq> jid) (jobs (queue st)),
     activeJob := (case activeJob (queue st) of
                     None \<Rightarrow> None
                   | Some a \<Rightarrow> if jobId a = jid then None else Some a)\<rparr>\<rparr>"

definition updateJob :: "string \<Rightarrow> JobUpdates \<Rightarrow> ConversionQueue \<Rightarrow> ConversionQueue" where
  "updateJob jid updates prev = prev\<lparr>
     jobs := map (\<lambda>j. if jobId j = jid then merge j updates else j) (jobs prev),
     activeJob := (case activeJob prev of
                     None \<Rightarrow> None
                   | Some a \<Rightarrow> if jobId a = jid then Some (merge a updates) else Some a)\<rparr>"

text \<open>
  The update literals that \<^verbatim>\<open>startQueue\<close> passes to \<^verbatim>\<open>updateJob\<close>.  In
  \<open>progressUpdates\<close> the argument is the double that \<^verbatim>\<open>progress * 100\<close> evaluates to
  (the product is a floating-point operation of the environment).
\<close>

definition convertingUpdates :: JobUpdates where
  "convertingUpdates = noUpdates\<lparr>upd_status := Some converting\<rparr>"

definition progressUpdates :: "rat \<Rightarrow> JobUpdates" where
  "progressUpdates x = noUpdates\<lparr>upd_progress := Some (Math_round x)\<rparr>"

definition completedUpdates :: "ConversionResult \<Rightarrow> Date \<Rightarrow> JobUpdates" where
  "completedUpdates res now = noUpdates\<lparr>upd_status := Some completed, upd_progress := Some 100,
     upd_result := Some res, upd_completedAt := Some now\<rparr>"

text \<open>\<^verbatim>\<open>error instanceof Error ? error : new Error('Unknown error')\<close>\<close>

fun conversionError :: "Thrown \<Rightarrow> JSError" where
  "conversionError (ThrownError e) = e"
| "conversionError (ThrownOther v) = Error ''Unknown error''"

definition failedUpdates :: "Thrown \<Rightarrow> Date \<Rightarrow> JobUpdates" where
  "failedUpdates thrown now = noUpdates\<lparr>upd_status := Some failed,
     upd_error := Some (conversionError thrown), upd_completedAt := Some now\<rparr>"

text \<open>The first \<^verbatim>\<open>setQueue\<close> of a loop iteration: find the next queued job and mark it.\<close>

definition selectNext :: "Date \<Rightarrow> ConversionQueue \<Rightarrow> ConversionJob option \<times> ConversionQueue" where
  "selectNext now prev =
     (case find (\<lambda>j. status j = queued) (jobs prev) of
        None \<Rightarrow> (None, prev)
      | Some nextJob \<Rightarrow>
          (Some nextJob,
           prev\<lparr>activeJob := Some nextJob,
                jobs := map (\<lambda>j. if jobId j = jobId nextJob
                                  then j\<lparr>status := initializing, startedAt := Some now\<rparr>
                                  else j) (jobs prev)\<rparr>))"

definition clearActive :: "ConversionQueue \<Rightarrow> ConversionQueue" where
  "clearActive prev = prev\<lparr>activeJob := None\<rparr>"

definition cancelUpdates :: "Date \<Rightarrow> JobUpdates" where
  "cancelUpdates now = noUpdates\<lparr>
     upd_status := Some cancelled,
     upd_error := Some (ConversionError CANCELLED ''Conversion was cancelled by user.''),
     upd_completedAt := Some now\<rparr>"

definition clearCompleted :: "HookState \<Rightarrow> HookState" where
  "clearCompleted st =
     st\<lparr>queue := (queue st)\<lparr>jobs := filter (\<lambda>j. status j \<noteq> completed) (jobs (queue st))\<rparr>\<rparr>"

definition clearAll :: "HookState \<Rightarrow> HookState" where
  "clearAll st =
     st\<lparr>queue := \<lparr>jobs = [], activeJob = None, maxConcurrent = 1\<rparr>, processingRef := False\<rparr>"

text \<open>
  The statistics object computed at each render.  In \<open>overallProgress\<close> the quotient is
  taken exactly; the hook divides in double precision, which rounds to the same integer as
  long as the absolute sum plus the length stays below \<open>2^52\<close>.
\<close>

definition statistics :: "HookState \<Rightarrow> QueueStatistics" where
  "statistics st = (let js = jobs (queue st) in
     \<lparr>totalJobs = length js,
      completedCount = length (filter (\<lambda>j. status j = completed) js),
      failedCount = length (filter (\<lambda>j. status j = failed) js),
      queuedCount = length (filter (\<lambda>j. status j = queued) js),
      activeCount = length (filter (\<lambda>j. status j = initializing \<or> status j = converting
                                        \<or> status j = finalizing) js),
      overallProgress =
        (if length js > 0
         then Math_round (of_int (foldl (\<lambda>sum j. sum + progress j) 0 js) / of_nat (length js))
         else 0),
      isProcessing = (processingRef st \<or> activeJob (queue st) \<noteq> None),
      isComplete = (length js > 0 \<and> list_all (\<lambda>j. status j = completed \<or> status j = failed) js)\<rparr>)"


section \<open>React's queue of pending updates\<close>

text \<open>
  A call of \<^verbatim>\<open>setQueue\<close> does not change the state cell: it appends an update to the
  queue of the component's fiber, and the updates are applied, in order, when the component
  renders.  Until then \<^verbatim>\<open>queue\<close>, as the callbacks and the statistics read it, is the
  state of the last render.  The updates the hook enqueues:
  \<^item> \<open>UAddJob\<close>, \<open>UAddJobs\<close>, \<open>URemoveJob\<close>, \<open>UClearCompleted\<close>: the updaters of the
    operations of these names;
  \<^item> \<open>UUpdateJob jobId updates\<close>: the updater of \<^verbatim>\<open>updateJob\<close>;
  \<^item> \<open>USelect\<close>: the updater at the top of the loop of \<^verbatim>\<open>startQueue\<close>, which finds and
    marks the next queued job; \<open>USelect (Some t)\<close> was computed eagerly at time \<open>t\<close>,
    \<open>USelect None\<close> runs at the render;
  \<^item> \<open>UClearActive\<close>: \<^verbatim>\<open>prev => ({ ...prev, activeJob: null })\<close>;
  \<^item> \<open>UClearAll\<close>: the state literal of \<^verbatim>\<open>clearAll\<close>.
\<close>

datatype Update =
    UAddJob ConversionJob
  | UAddJobs "ConversionJob list"
  | URemoveJob string
  | UUpdateJob string JobUpdates
  | USelect "Date option"
  | UClearActive
  | UClearCompleted
  | UClearAll

record Fiber =
  hook :: HookState
  pending :: "Update list"

definition initialFiber :: Fiber where
  "initialFiber = \<lparr>hook = initialState, pending = []\<rparr>"

definition enqueue :: "Update \<Rightarrow> Fiber \<Rightarrow> Fiber" where
  "enqueue u c = c\<lparr>pending := pending c @ [u]\<rparr>"

definition withHook :: "(HookState \<Rightarrow> HookState) \<Rightarrow> Fiber \<Rightarrow> Fiber" where
  "withHook f c = c\<lparr>hook := f (hook c)\<rparr>"

text \<open>
  An update applied at a render that takes place at time \<open>now\<close>.  The reference cells were
  assigned when the operation was called, so \<open>UAddJobs\<close> and \<open>UClearAll\<close> leave them as they
  are.
\<close>

fun applyUpdate :: "Date \<Rightarrow> Update \<Rightarrow> HookState \<Rightarrow> HookState" where
  "applyUpdate now (UAddJob job) st = addJob job st"
| "applyUpdate now (UAddJobs js) st = addJobs js (autoStartRef st) st"
| "applyUpdate now (URemoveJob jid) st = removeJob jid st"
| "applyUpdate now (UUpdateJob jid updates) st = st\<lparr>queue := updateJob jid updates (queue st)\<rparr>"
| "applyUpdate now (USelect (Some t)) st = st\<lparr>queue := snd (selectNext t (queue st))\<rparr>"
| "applyUpdate now (USelect None) st = st\<lparr>queue := snd (selectNext now (queue st))\<rparr>"
| "applyUpdate now UClearActive st = st\<lparr>queue := clearActive (queue st)\<rparr>"
| "applyUpdate now UClearCompleted st = clearCompleted st"
| "applyUpdate now UClearAll st = (clearAll st)\<lparr>processingRef := processingRef st\<rparr>"

definition render :: "Date \<Rightarrow> Fiber \<Rightarrow> Fiber" where
  "render now c = \<lparr>hook = fold (applyUpdate now) (pending c) (hook c), pending = []\<rparr>"

section \<open>The operations as they run\<close>

text \<open>
  \<^verbatim>\<open>setQueue\<close> with the updater at the top of the loop (lines 88 to 112), and the value of
  \<^verbatim>\<open>nextJob\<close> that line 114 reads right after it.  When the fiber has no pending update,
  React computes the next state eagerly: the updater runs at once on the state of the last
  render and assigns \<^verbatim>\<open>nextJob\<close>; if it returns \<^verbatim>\<open>prev\<close> itself nothing is enqueued.
  When an update is pending, the updater is enqueued and runs at the render, so
  \<^verbatim>\<open>nextJob\<close> is still undefined when line 114 reads it.  Only the updates of this
  state cell are counted; updates pending on other state cells of the component, which defer
  the updater in the same way, are left out.
\<close>

definition setQueueSelect :: "Date \<Rightarrow> Fiber \<Rightarrow> ConversionJob option \<times> Fiber" where
  "setQueueSelect now c =
     (if pending c = [] then
        (case fst (selectNext now (queue (hook c))) of
           None \<Rightarrow> (None, c)
         | Some nextJob \<Rightarrow> (Some nextJob, enqueue (USelect (Some now)) c))
      else (None, enqueue (USelect None) c))"

text \<open>
  The body of \<^verbatim>\<open>while (true)\<close> from its top down to the point where control leaves the
  running code: either the \<^verbatim>\<open>break\<close> (followed by \<^verbatim>\<open>processingRef.current = false\<close>) or
  the \<^verbatim>\<open>await\<close> on the conversion service.
\<close>

definition loopTop :: "Date \<Rightarrow> Fiber \<Rightarrow> Fiber" where
  "loopTop now c =
     (case setQueueSelect now c of
        (None, c') \<Rightarrow> withHook (\<lambda>st. st\<lparr>processingRef := False\<rparr>) c'
      | (Some nextJob, c') \<Rightarrow>
          withHook (\<lambda>st. st\<lparr>suspended := suspended st @ [AwaitConvert nextJob],
                              convertCalls := convertCalls st @ [nextJob]\<rparr>)
            (enqueue (UUpdateJob (jobId nextJob) convertingUpdates) c'))"

definition startQueue :: "Date \<Rightarrow> Fiber \<Rightarrow> Fiber" where
  "startQueue now c =
     (if processingRef (hook c) then c
      else loopTop now (withHook (\<lambda>st. st\<lparr>processingRef := True\<rparr>) c))"

text \<open>The \<^verbatim>\<open>onProgress\<close> callback handed to the conversion service.\<close>

definition onProgress :: "ConversionJob \<Rightarrow> rat \<Rightarrow> Fiber \<Rightarrow> Fiber" where
  "onProgress nextJob x c = enqueue (UUpdateJob (jobId nextJob) (progressUpdates x)) c"

text \<open>\<^verbatim>\<open>startQueue\<close> resumed after the conversion service fulfilled its promise.\<close>

definition afterConvert ::
  "ConversionJob \<Rightarrow> ConversionResult \<Rightarrow> Date \<Rightarrow> Date \<Rightarrow> Fiber \<Rightarrow> Fiber" where
  "afterConvert nextJob res now now' c =
     loopTop now' (enqueue UClearActive
       (enqueue (UUpdateJob (jobId nextJob) (completedUpdates res now)) c))"

text \<open>\<^verbatim>\<open>startQueue\<close> resumed in its \<^verbatim>\<open>catch\<close> block after the promise was rejected.\<close>

definition catchConvert ::
  "ConversionJob \<Rightarrow> Thrown \<Rightarrow> Date \<Rightarrow> Date \<Rightarrow> Fiber \<Rightarrow> Fiber" where
  "catchConvert nextJob thrown now now' c =
     loopTop now' (enqueue UClearActive
       (enqueue (UUpdateJob (jobId nextJob) (failedUpdates thrown now)) c))"

text \<open>
  \<^verbatim>\<open>cancelJob\<close> up to its first suspension, reading the jobs \<open>snapshot\<close> that its closure
  captured.  The result tells whether the call stopped at
  \<^verbatim>\<open>await cancelService(jobId)\<close> (\<open>True\<close>) or ran to its end (\<open>False\<close>).
\<close>

definition cancelJobSync ::
  "ConversionJob list \<Rightarrow> string \<Rightarrow> Date \<Rightarrow> Fiber \<Rightarrow> bool \<times> Fiber" where
  "cancelJobSync snapshot jid now c =
     (case find (\<lambda>j. jobId j = jid) snapshot of
        None \<Rightarrow> (False, c)
      | Some job \<Rightarrow>
          if status job = converting \<or> status job = initializing
          then (True, withHook (\<lambda>st. st\<lparr>cancelCalls := cancelCalls st @ [jid]\<rparr>) c)
          else (False, enqueue (UUpdateJob jid (cancelUpdates now)) c))"

definition cancelJob :: "string \<Rightarrow> Date \<Rightarrow> Fiber \<Rightarrow> Fiber" where
  "cancelJob jid now c =
     (case cancelJobSync (jobs (queue (hook c))) jid now c of
        (True, c') \<Rightarrow> withHook (\<lambda>st. st\<lparr>suspended := suspended st @ [AwaitCancel jid]\<rparr>) c'
      | (False, c') \<Rightarrow> c')"

text \<open>\<^verbatim>\<open>cancelJob\<close> resumed after \<^verbatim>\<open>cancelService\<close> settled (a rejection is only logged).\<close>

definition afterCancel :: "string \<Rightarrow> Date \<Rightarrow> Fiber \<Rightarrow> Fiber" where
  "afterCancel jid now c = enqueue (UUpdateJob jid (cancelUpdates now)) c"

text \<open>The \<^verbatim>\<open>for\<close> loop of \<^verbatim>\<open>cancelAll\<close> from its head to the next \<^verbatim>\<open>await\<close> or to its end.\<close>

fun cancelAllLoop ::
  "ConversionJob list \<Rightarrow> ConversionJob list \<Rightarrow> Date \<Rightarrow> Fiber \<Rightarrow> Fiber" where
  "cancelAllLoop snapshot [] now c = withHook (\<lambda>st. st\<lparr>processingRef := False\<rparr>) c"
| "cancelAllLoop snapshot (job # rest) now c =
     (case cancelJobSync snapshot (jobId job) now c of
        (inner, c') \<Rightarrow>
          withHook (\<lambda>st. st\<lparr>suspended :=
              suspended st @ [AwaitCancelJob snapshot inner (jobId job) rest]\<rparr>) c')"

definition jobsToCancel :: "ConversionJob list \<Rightarrow> ConversionJob list" where
  "jobsToCancel js =
     filter (\<lambda>j. status j = queued \<or> status j = initializing \<or> status j = converting) js"

definition cancelAll :: "Date \<Rightarrow> Fiber \<Rightarrow> Fiber" where
  "cancelAll now c =
     cancelAllLoop (jobs (queue (hook c))) (jobsToCancel (jobs (queue (hook c)))) now c"

text \<open>The \<^verbatim>\<open>useEffect\<close> that starts the queue after \<^verbatim>\<open>addJobs(..., true)\<close>.\<close>

definition autoStartEffect :: "Date \<Rightarrow> Fiber \<Rightarrow> Fiber" where
  "autoStartEffect now c =
     (if autoStartRef (hook c) \<and> \<not> processingRef (hook c)
         \<and> list_ex (\<lambda>j. status j = queued) (jobs (queue (hook c)))
      then startQueue now (withHook (\<lambda>st. st\<lparr>autoStartRef := False\<rparr>) c)
      else c)"

section \<open>Events\<close>

text \<open>
  JavaScript runs one piece of code at a time, from a call or a resumption to the next
  \<^verbatim>\<open>await\<close> or return.  An event is one such piece: a call of a public operation, a
  render of the component, the effect, or the resumption of the suspended call at position
  \<open>k\<close>.  \<open>ConvertProgress k x\<close> is a call of the progress callback by the conversion
  awaited at position \<open>k\<close>, where \<open>x\<close> is the finite double \<^verbatim>\<open>progress * 100\<close>.  An event
  that does not apply (no such suspended call) leaves the state as it is.
\<close>

datatype Event =
    AddJob ConversionJob
  | AddJobs "ConversionJob list" bool
  | RemoveJob string
  | StartQueue Date
  | CancelJob string Date
  | CancelAll Date
  | ClearCompleted
  | ClearAll
  | Render Date
  | AutoStartEffect Date
  | ConvertProgress nat rat
  | ConvertResolved nat ConversionResult Date Date
  | ConvertRejected nat Thrown Date Date
  | CancelSettled nat Date
  | CancelAllResumed nat Date

definition dropAt :: "nat \<Rightarrow> 'a list \<Rightarrow> 'a list" where
  "dropAt k xs = take k xs @ drop (Suc k) xs"

definition resume :: "nat \<Rightarrow> Fiber \<Rightarrow> Fiber" where
  "resume k c = withHook (\<lambda>st. st\<lparr>suspended := dropAt k (suspended st)\<rparr>) c"

fun step :: "Event \<Rightarrow> Fiber \<Rightarrow> Fiber" where
  "step (AddJob job) c = enqueue (UAddJob job) c"
| "step (AddJobs js autoStart) c =
     enqueue (UAddJobs js) (withHook (\<lambda>st. st\<lparr>autoStartRef := autoStart\<rparr>) c)"
| "step (RemoveJob jid) c = enqueue (URemoveJob jid) c"
| "step (StartQueue now) c = startQueue now c"
| "step (CancelJob jid now) c = cancelJob jid now c"
| "step (CancelAll now) c = cancelAll now c"
| "step ClearCompleted c = enqueue UClearCompleted c"
| "step ClearAll c = withHook (\<lambda>st. st\<lparr>processingRef := False\<rparr>) (enqueue UClearAll c)"
| "step (Render now) c = render now c"
| "step (AutoStartEffect now) c = autoStartEffect now c"
| "step (ConvertProgress k x) c =
     (if k < length (suspended (hook c)) then
        (case suspended (hook c) ! k of
           AwaitConvert nextJob \<Rightarrow> onProgress nextJob x c
         | _ \<Rightarrow> c)
      else c)"
| "step (ConvertResolved k res now now') c =
     (if k < length (suspended (hook c)) then
        (case suspended (hook c) ! k of
           AwaitConvert nextJob \<Rightarrow> afterConvert nextJob res now now' (resume k c)
         | _ \<Rightarrow> c)
      else c)"
| "step (ConvertRejected k thrown now now') c =
     (if k < length (suspended (hook c)) then
        (case suspended (hook c) ! k of
           AwaitConvert nextJob \<Rightarrow> catchConvert nextJob thrown now now' (resume k c)
         | _ \<Rightarrow> c)
      else c)"
| "step (CancelSettled k now) c =
     (if k < length (suspended (hook c)) then
        (case suspended (hook c) ! k of
           AwaitCancel jid \<Rightarrow> afterCancel jid now (resume k c)
         | AwaitCancelJob snapshot True jid rest \<Rightarrow>
             afterCancel jid now
               (withHook (\<lambda>st. st\<lparr>suspended :=
                   (suspended st)[k := AwaitCancelJob snapshot False jid rest]\<rparr>) c)
         | _ \<Rightarrow> c)
      else c)"
| "step (CancelAllResumed k now) c =
     (if k < length (suspended (hook c)) then
        (case suspended (hook c) ! k of
           AwaitCancelJob snapshot False jid rest \<Rightarrow> cancelAllLoop snapshot rest now (resume k c)
         | _ \<Rightarrow> c)
      else c)"

definition run :: "Event list \<Rightarrow> Fiber \<Rightarrow> Fiber" where
  "run es c = fold step es c"

section \<open>Sample data\<close>

text \<open>The job record that \<^verbatim>\<open>handleConvertBatch\<close> (App.tsx) builds for a selected file.\<close>

definition createJob :: "string \<Rightarrow> string \<Rightarrow> string \<Rightarrow> ConversionJob" where
  "createJob file fmt profile =
     \<lparr>jobId = file, sourceFile = file, targetFormat = fmt, qualityProfile = profile,
      status = queued, progress = 0, error = None, result = None,
      startedAt = None, completedAt = None, estimatedDuration = None\<rparr>"

definition sampleResult :: ConversionResult where
  "sampleResult = \<lparr>blob = ''data'', filename = ''out.mp4'', sizeBytes = 4, url = None\<rparr>"

definition jobA :: ConversionJob where
  "jobA = createJob ''a'' ''mp4'' ''high''"

definition jobB :: ConversionJob where
  "jobB = createJob ''b'' ''webm'' ''balanced''"

definition jobC :: ConversionJob where
  "jobC = createJob ''c'' ''mp3'' ''small''"

section \<open>Properties of states and events\<close>

text \<open>The records an event submits to the store.\<close>

fun submitted :: "Event \<Rightarrow> ConversionJob list" where
  "submitted (AddJob job) = [job]"
| "submitted (AddJobs js autoStart) = js"
| "submitted _ = []"

text \<open>No record of the store has status \<open>finalizing\<close>.\<close>

definition noneFinalizing :: "ConversionQueue \<Rightarrow> bool" where
  "noneFinalizing q \<longleftrightarrow> list_all (\<lambda>j. status j \<noteq> finalizing) (jobs q)"



text \<open>
  A store whose records all satisfy \<open>R\<close>, with pending updates that submit only records
  satisfying \<open>R\<close> and write only literals satisfying \<open>G\<close>.
\<close>

fun updateOk :: "(ConversionJob \<Rightarrow> bool) \<Rightarrow> (JobUpdates \<Rightarrow> bool) \<Rightarrow> Update \<Rightarrow> bool" where
  "updateOk R G (UAddJob job) = R job"
| "updateOk R G (UAddJobs js) = list_all R js"
| "updateOk R G (UUpdateJob jid updates) = G updates"
| "updateOk R G _ = True"

definition keeps :: "(ConversionJob \<Rightarrow> bool) \<Rightarrow> (JobUpdates \<Rightarrow> bool) \<Rightarrow> Fiber \<Rightarrow> bool" where
  "keeps R G c \<longleftrightarrow> list_all R (jobs (queue (hook c))) \<and> list_all (updateOk R G) (pending c)"

text \<open>\<open>R\<close> is kept by the writes of literals satisfying \<open>G\<close> and by the mark of the selected
  job, and the hook's own literals satisfy \<open>G\<close>.\<close>

definition hookKeeps :: "(ConversionJob \<Rightarrow> bool) \<Rightarrow> (JobUpdates \<Rightarrow> bool) \<Rightarrow> bool" where
  "hookKeeps R G \<longleftrightarrow>
     (\<forall>j u. R j \<longrightarrow> G u \<longrightarrow> R (merge j u))
     \<and> (\<forall>j t. R j \<longrightarrow> R (j\<lparr>status := initializing, startedAt := Some t\<rparr>))
     \<and> G convertingUpdates \<and> (\<forall>x. G (progressUpdates x))
     \<and> (\<forall>res t. G (completedUpdates res t)) \<and> (\<forall>thrown t. G (failedUpdates thrown t))
     \<and> (\<forall>t. G (cancelUpdates t))"

section \<open>Evaluation rules\<close>

lemmas ops_defs = run_def jobA_def jobB_def jobC_def createJob_def sampleResult_def initialState_def initialQueue_def
  initialFiber_def enqueue_def withHook_def render_def setQueueSelect_def addJob_def
  addJobs_def startQueue_def loopTop_def selectNext_def updateJob_def merge_def noUpdates_def
  clearAll_def afterConvert_def catchConvert_def resume_def dropAt_def clearActive_def
  cancelJob_def cancelJobSync_def cancelUpdates_def removeJob_def clearCompleted_def
  afterCancel_def cancelAll_def onProgress_def autoStartEffect_def convertingUpdates_def
  progressUpdates_def completedUpdates_def failedUpdates_def jobsToCancel_def

section \<open>Statistics\<close>

text \<open>
  Claim C9.  \<open>isComplete\<close> holds exactly when the job list is not empty and every record is
  \<open>completed\<close> or \<open>failed\<close>.  A record in any other status (\<open>cancelled\<close>, \<open>queued\<close>,
  \<open>initializing\<close>, \<open>converting\<close>, \<open>finalizing\<close>) makes it false, and so a store that holds
  only cancelled jobs is never reported complete.
\<close>

theorem isComplete_iff:
  "(isComplete (statistics st) \<longleftrightarrow>
      jobs (queue st) \<noteq> [] \<and> (\<forall>j \<in> set (jobs (queue st)). status j = completed \<or> status j = failed))
   \<and> ((\<exists>j \<in> set (jobs (queue st)). status j = cancelled \<or> status j = queued \<or> status j = initializing
          \<or> status j = converting \<or> status j = finalizing) \<longrightarrow> \<not> isComplete (statistics st))
   \<and> ((\<forall>j \<in> set (jobs (queue st)). status j = cancelled) \<longrightarrow> \<not> isComplete (statistics st))"
proof -
  have eq: "isComplete (statistics st) \<longleftrightarrow>
      jobs (queue st) \<noteq> [] \<and> (\<forall>j \<in> set (jobs (queue st)). status j = completed \<or> status j = failed)"
    by (simp add: statistics_def list_all_iff Let_def)
  have other: "\<not> isComplete (statistics st)"
    if "j \<in> set (jobs (queue st))" and "status j \<noteq> completed" and "status j \<noteq> failed" for j
    using that eq by blast
  have only_cancelled: "\<not> isComplete (statistics st)" if "\<forall>j \<in> set (jobs (queue st)). status j = cancelled"
  proof (cases "jobs (queue st)")
    case Nil
    then show ?thesis using eq by simp
  next
    case (Cons j js)
    then have "j \<in> set (jobs (queue st))" and "status j = cancelled" using that by simp_all
    then show ?thesis using other [of j] by simp
  qed
  show ?thesis using eq other only_cancelled by fastforce
qed

theorem isComplete_iff_witness:
  "isComplete (statistics (hook (run [AddJob jobA, Render 2, StartQueue 3, Render 4,
      ConvertResolved 0 sampleResult 5 6, Render 7, AddJob jobB, Render 8, StartQueue 9, Render 10,
      ConvertRejected 0 (ThrownOther ''x'') 11 12, Render 13] initialFiber)))
   \<and> map status (jobs (queue (hook (run [AddJob jobA, Render 2, StartQueue 3, Render 4,
      ConvertResolved 0 sampleResult 5 6, Render 7, AddJob jobB, Render 8, StartQueue 9, Render 10,
      ConvertRejected 0 (ThrownOther ''x'') 11 12, Render 13] initialFiber)))) = [completed, failed]
   \<and> \<not> isComplete (statistics (hook (run [AddJob jobA, Render 2, CancelJob ''a'' 3, Render 4]
      initialFiber)))
   \<and> map status (jobs (queue (hook (run [AddJob jobA, Render 2, CancelJob ''a'' 3, Render 4]
      initialFiber)))) = [cancelled]"
  using isComplete_iff [of "hook (run [AddJob jobA, Render 2, StartQueue 3, Render 4,
      ConvertResolved 0 sampleResult 5 6, Render 7, AddJob jobB, Render 8, StartQueue 9, Render 10,
      ConvertRejected 0 (ThrownOther ''x'') 11 12, Render 13] initialFiber)"]
    isComplete_iff [of "hook (run [AddJob jobA, Render 2, CancelJob ''a'' 3, Render 4] initialFiber)"]
  by (simp add: ops_defs)

text \<open>
  Claim C10.  \<open>clearAll\<close> puts the store back to its initial value (no jobs, no active job,
  \<open>maxConcurrent = 1\<close>) and clears the processing flag, whatever the state was and whatever
  calls are still suspended on the conversion service (they stay suspended).  Statistics
  computed from the state right after it show no jobs, progress 0, not processing and not
  complete.
\<close>

theorem clearAll_resets:
  "queue (clearAll st) = initialQueue
   \<and> \<not> processingRef (clearAll st)
   \<and> suspended (clearAll st) = suspended st
   \<and> totalJobs (statistics (clearAll st)) = 0
   \<and> overallProgress (statistics (clearAll st)) = 0
   \<and> \<not> isProcessing (statistics (clearAll st))
   \<and> \<not> isComplete (statistics (clearAll st))"
  by (simp add: clearAll_def initialQueue_def statistics_def)

text \<open>In a run, \<^verbatim>\<open>clearAll\<close> clears the flag at the call and the state literal replaces the
  store at the next render, whatever was pending before it.\<close>

lemma refs_applyUpdate:
  "processingRef (applyUpdate t u st) = processingRef st
   \<and> suspended (applyUpdate t u st) = suspended st"
proof (cases u)
  case (USelect eager)
  then show ?thesis by (cases eager) simp_all
qed (simp_all add: addJob_def addJobs_def removeJob_def clearCompleted_def clearAll_def)

lemma refs_fold_applyUpdate:
  "processingRef (fold (applyUpdate t) us st) = processingRef st
   \<and> suspended (fold (applyUpdate t) us st) = suspended st"
  by (induction us arbitrary: st) (simp_all add: refs_applyUpdate)

lemma clearAll_rendered:
  "queue (hook (step (Render t) (step ClearAll c))) = queue (clearAll (hook c))
   \<and> processingRef (hook (step (Render t) (step ClearAll c))) = processingRef (clearAll (hook c))
   \<and> suspended (hook (step (Render t) (step ClearAll c))) = suspended (clearAll (hook c))
   \<and> pending (step (Render t) (step ClearAll c)) = []"
  by (simp add: render_def enqueue_def withHook_def clearAll_def refs_fold_applyUpdate)

section \<open>Submission\<close>

text \<open>
  Claim C5, as the code has it.  \<open>addJob\<close> and \<open>addJobs\<close> append what they are given in every
  state: there is no check of the id and no error result, so a record whose id is already
  in the store is appended as one more record with that id.
\<close>

theorem addJob_appends:
  "jobs (queue (addJob job st)) = jobs (queue st) @ [job]
   \<and> jobs (queue (addJobs js autoStart st)) = jobs (queue st) @ js
   \<and> length (filter (\<lambda>j. jobId j = jobId job) (jobs (queue (addJob job st))))
       = Suc (length (filter (\<lambda>j. jobId j = jobId job) (jobs (queue st))))"
  by (simp add: addJob_def addJobs_def)

text \<open>
  Against claim C5 as stated: submitting the id \<open>a\<close> a second time, by \<open>addJob\<close> or inside
  \<open>addJobs\<close>, changes the queue, which then holds two records with that id.
\<close>

theorem addJob_duplicate_counterexample:
  "map jobId (jobs (queue (addJob (createJob ''a'' ''mp4'' ''high'')
      (addJob (createJob ''a'' ''mp4'' ''high'') initialState)))) = [''a'', ''a'']
   \<and> map jobId (jobs (queue (addJobs [createJob ''a'' ''webm'' ''small''] False
      (addJob (createJob ''a'' ''mp4'' ''high'') initialState)))) = [''a'', ''a'']"
  by (simp add: ops_defs)

section \<open>The scheduler loop: selection\<close>

lemma selectNext_None:
  "find (\<lambda>j. status j = queued) (jobs q) = None \<Longrightarrow> selectNext now q = (None, q)"
  by (simp add: selectNext_def)




section \<open>Invariants of all runs\<close>

lemma jobs_updateJob:
  "jobs (updateJob jid u q) = map (\<lambda>j. if jobId j = jid then merge j u else j) (jobs q)"
  by (simp add: updateJob_def)

lemma jobId_merge [simp]: "jobId (merge j u) = jobId j"
  by (simp add: merge_def)

lemma status_merge:
  "status (merge j u) = (case upd_status u of None \<Rightarrow> status j | Some s \<Rightarrow> s)"
  by (simp add: merge_def)

lemma jobs_selectNext:
  "jobs (snd (selectNext t q)) =
     (case find (\<lambda>j. status j = queued) (jobs q) of
        None \<Rightarrow> jobs q
      | Some n \<Rightarrow> map (\<lambda>j. if jobId j = jobId n
                           then j\<lparr>status := initializing, startedAt := Some t\<rparr> else j) (jobs q))"
  by (simp add: selectNext_def split: option.splits)

lemma keeps_enqueue [simp]: "keeps R G (enqueue u c) \<longleftrightarrow> keeps R G c \<and> updateOk R G u"
  by (auto simp: keeps_def enqueue_def)

lemma keeps_withHook:
  "queue (f (hook c)) = queue (hook c) \<Longrightarrow> keeps R G (withHook f c) \<longleftrightarrow> keeps R G c"
  by (simp add: keeps_def withHook_def)

lemma keeps_resume [simp]: "keeps R G (resume k c) \<longleftrightarrow> keeps R G c"
  by (simp add: resume_def keeps_withHook)

lemma R_updateJob:
  assumes "hookKeeps R G" and "G u" and "list_all R (jobs q)"
  shows "list_all R (jobs (updateJob jid u q))"
  using assms by (auto simp: hookKeeps_def jobs_updateJob list_all_iff)

lemma R_selectNext:
  assumes "hookKeeps R G" and "list_all R (jobs q)"
  shows "list_all R (jobs (snd (selectNext t q)))"
  using assms by (auto simp: hookKeeps_def jobs_selectNext list_all_iff split: option.splits)

lemma R_applyUpdate:
  assumes r: "hookKeeps R G" and u: "updateOk R G u" and js: "list_all R (jobs (queue st))"
  shows "list_all R (jobs (queue (applyUpdate t u st)))"
proof (cases u)
  case (UAddJob job)
  then show ?thesis using u js by (simp add: addJob_def)
next
  case (UAddJobs new)
  then show ?thesis using u js by (simp add: addJobs_def)
next
  case (URemoveJob jid)
  then show ?thesis using js by (simp add: removeJob_def list_all_iff)
next
  case (UUpdateJob jid updates)
  then show ?thesis using u js R_updateJob [OF r] by simp
next
  case (USelect eager)
  then show ?thesis using js R_selectNext [OF r] by (cases eager) simp_all
next
  case UClearActive
  then show ?thesis using js by (simp add: clearActive_def)
next
  case UClearCompleted
  then show ?thesis using js by (simp add: clearCompleted_def list_all_iff)
next
  case UClearAll
  then show ?thesis by (simp add: clearAll_def)
qed

lemma R_fold_applyUpdate:
  assumes r: "hookKeeps R G"
  shows "list_all (updateOk R G) us \<Longrightarrow> list_all R (jobs (queue st)) \<Longrightarrow>
         list_all R (jobs (queue (fold (applyUpdate t) us st)))"
proof (induction us arbitrary: st)
  case Nil
  then show ?case by simp
next
  case (Cons u us)
  from Cons.prems have "list_all R (jobs (queue (applyUpdate t u st)))"
    using R_applyUpdate [OF r] by simp
  then show ?case using Cons by simp
qed

lemma keeps_render:
  assumes "hookKeeps R G" and "keeps R G c"
  shows "keeps R G (render t c)"
  using assms R_fold_applyUpdate [OF assms(1), of "pending c" "hook c" t]
  by (simp add: keeps_def render_def)

lemma keeps_loopTop:
  assumes r: "hookKeeps R G" and k: "keeps R G c"
  shows "keeps R G (loopTop t c)"
proof -
  have G: "G convertingUpdates" using r by (simp add: hookKeeps_def)
  show ?thesis
    using k G
    by (simp add: loopTop_def setQueueSelect_def keeps_withHook split: option.splits)
qed

lemma keeps_startQueue:
  assumes r: "hookKeeps R G" and k: "keeps R G c"
  shows "keeps R G (startQueue t c)"
proof (cases "processingRef (hook c)")
  case True
  then show ?thesis using k by (simp add: startQueue_def)
next
  case False
  have "keeps R G (withHook (\<lambda>st. st\<lparr>processingRef := True\<rparr>) c)"
    using k by (simp add: keeps_withHook)
  then show ?thesis using False keeps_loopTop [OF r] by (simp add: startQueue_def)
qed

lemma keeps_cancelJobSync:
  assumes r: "hookKeeps R G" and k: "keeps R G c"
  shows "keeps R G (snd (cancelJobSync snapshot jid t c))"
proof -
  have "G (cancelUpdates t)" using r by (simp add: hookKeeps_def)
  then show ?thesis
    using k by (simp add: cancelJobSync_def keeps_withHook split: option.splits)
qed

lemma keeps_cancelAllLoop:
  assumes r: "hookKeeps R G" and k: "keeps R G c"
  shows "keeps R G (cancelAllLoop snapshot todo t c)"
proof (cases todo)
  case Nil
  then show ?thesis using k by (simp add: keeps_withHook)
next
  case (Cons job rest)
  then show ?thesis
    using keeps_cancelJobSync [OF r k, of snapshot "jobId job" t]
    by (simp add: case_prod_unfold keeps_withHook)
qed

lemma keeps_settle:
  assumes r: "hookKeeps R G" and k: "keeps R G c" and u: "G u"
  shows "keeps R G (loopTop t (enqueue UClearActive (enqueue (UUpdateJob jid u) c)))"
  using k u by (intro keeps_loopTop [OF r]) simp

lemma keeps_step:
  assumes r: "hookKeeps R G" and k: "keeps R G c" and e: "list_all R (submitted e)"
  shows "keeps R G (step e c)"
proof (cases e)
  case (AddJob job)
  then show ?thesis using k e by simp
next
  case (AddJobs js a)
  then show ?thesis using k e by (simp add: keeps_withHook)
next
  case (RemoveJob jid)
  then show ?thesis using k by simp
next
  case (StartQueue t)
  then show ?thesis using keeps_startQueue [OF r k] by simp
next
  case (CancelJob jid t)
  then show ?thesis
    using keeps_cancelJobSync [OF r k, of "jobs (queue (hook c))" jid t]
    by (simp add: cancelJob_def case_prod_unfold keeps_withHook split: bool.splits)
next
  case (CancelAll t)
  then show ?thesis using keeps_cancelAllLoop [OF r k] by (simp add: cancelAll_def)
next
  case ClearCompleted
  then show ?thesis using k by simp
next
  case ClearAll
  then show ?thesis using k by (simp add: keeps_withHook)
next
  case (Render t)
  then show ?thesis using keeps_render [OF r k] by simp
next
  case (AutoStartEffect t)
  have "keeps R G (withHook (\<lambda>st. st\<lparr>autoStartRef := False\<rparr>) c)"
    using k by (simp add: keeps_withHook)
  then show ?thesis
    using AutoStartEffect k keeps_startQueue [OF r] by (simp add: autoStartEffect_def)
next
  case (ConvertProgress i x)
  have "G (progressUpdates x)" using r by (simp add: hookKeeps_def)
  then show ?thesis
    using ConvertProgress k by (simp add: onProgress_def split: Suspended.splits)
next
  case (ConvertResolved i res t t')
  have "G (completedUpdates res t)" using r by (simp add: hookKeeps_def)
  then have "keeps R G (afterConvert n res t t' (resume i c))" for n
    unfolding afterConvert_def using k by (intro keeps_settle [OF r]) simp_all
  then show ?thesis using ConvertResolved k by (simp split: Suspended.splits)
next
  case (ConvertRejected i thrown t t')
  have "G (failedUpdates thrown t)" using r by (simp add: hookKeeps_def)
  then have "keeps R G (catchConvert n thrown t t' (resume i c))" for n
    unfolding catchConvert_def using k by (intro keeps_settle [OF r]) simp_all
  then show ?thesis using ConvertRejected k by (simp split: Suspended.splits)
next
  case (CancelSettled i t)
  have "G (cancelUpdates t)" using r by (simp add: hookKeeps_def)
  then show ?thesis
    using CancelSettled k
    by (simp add: afterCancel_def keeps_withHook split: Suspended.splits bool.splits)
next
  case (CancelAllResumed i t)
  then show ?thesis
    using k keeps_cancelAllLoop [OF r, of "resume i c"]
    by (simp split: Suspended.splits bool.splits)
qed

lemma keeps_run:
  assumes r: "hookKeeps R G"
  shows "keeps R G c \<Longrightarrow> list_all (\<lambda>e. list_all R (submitted e)) es \<Longrightarrow> keeps R G (run es c)"
  unfolding run_def
  by (induction es arbitrary: c) (simp_all add: keeps_step [OF r])

lemma keeps_initial: "keeps R G initialFiber"
  by (simp add: keeps_def initialFiber_def initialState_def initialQueue_def)

lemma hookKeeps_finalizing:
  "hookKeeps (\<lambda>j. status j \<noteq> finalizing) (\<lambda>u. upd_status u \<noteq> Some finalizing)"
  by (simp add: hookKeeps_def status_merge convertingUpdates_def progressUpdates_def
      completedUpdates_def failedUpdates_def cancelUpdates_def noUpdates_def split: option.splits)


section \<open>The scheduler loop: start and settlement\<close>

lemma startQueue_running: "processingRef (hook c) \<Longrightarrow> startQueue now c = c"
  by (simp add: startQueue_def)

lemma ids_updateJob: "map jobId (jobs (updateJob jid u q)) = map jobId (jobs q)"
  by (simp add: jobs_updateJob comp_def)

lemma ids_selectNext: "map jobId (jobs (snd (selectNext t q))) = map jobId (jobs q)"
  by (simp add: jobs_selectNext comp_def split: option.splits)

lemma length_selectNext [simp]: "length (jobs (snd (selectNext t q))) = length (jobs q)"
  by (simp add: jobs_selectNext split: option.splits)

lemma selectNext_other:
  assumes d: "distinct (map jobId (jobs q))" and i: "i < length (jobs q)"
    and s: "status (jobs q ! i) \<noteq> queued"
  shows "jobs (snd (selectNext t q)) ! i = jobs q ! i"
proof (cases "find (\<lambda>j. status j = queued) (jobs q)")
  case None
  then show ?thesis by (simp add: jobs_selectNext)
next
  case (Some n)
  then obtain k where k: "k < length (jobs q)" "status (jobs q ! k) = queued" "n = jobs q ! k"
    by (auto simp: find_Some_iff)
  have "k \<noteq> i" using k(2) s by blast
  then have "jobId (jobs q ! i) \<noteq> jobId n"
    using d i k(1) k(3) by (simp add: distinct_conv_nth)
  then show ?thesis using Some i by (simp add: jobs_selectNext)
qed

lemma setQueueSelect_pending:
  "pending c \<noteq> [] \<Longrightarrow> setQueueSelect now c = (None, enqueue (USelect None) c)"
  by (simp add: setQueueSelect_def)

lemma loopTop_pending:
  "pending c \<noteq> [] \<Longrightarrow>
   loopTop now c = withHook (\<lambda>st. st\<lparr>processingRef := False\<rparr>) (enqueue (USelect None) c)"
  by (simp add: loopTop_def setQueueSelect_pending)

lemma loopTop_idle:
  assumes "pending c = []" and "find (\<lambda>j. status j = queued) (jobs (queue (hook c))) = Some n"
  shows "loopTop now c =
     withHook (\<lambda>st. st\<lparr>suspended := suspended st @ [AwaitConvert n],
                        convertCalls := convertCalls st @ [n]\<rparr>)
       (enqueue (UUpdateJob (jobId n) convertingUpdates) (enqueue (USelect (Some now)) c))"
  using assms by (simp add: loopTop_def setQueueSelect_def selectNext_def)

text \<open>When the awaited conversion settles, the two updates are queued, so the updater at the
  top of the loop is deferred and the loop ends.\<close>

lemma afterConvert_ends:
  "afterConvert n res t t' c = withHook (\<lambda>st. st\<lparr>processingRef := False\<rparr>)
     (enqueue (USelect None) (enqueue UClearActive
        (enqueue (UUpdateJob (jobId n) (completedUpdates res t)) c)))"
  by (simp add: afterConvert_def loopTop_pending enqueue_def)


lemma merge_status_literals [simp]:
  "status (merge j convertingUpdates) = converting"
  "status (merge j (completedUpdates res t)) = completed"
  "status (merge j (failedUpdates thrown t)) = failed"
  "status (merge j (cancelUpdates t)) = cancelled"
  "status (merge j (progressUpdates x)) = status j"
  "result (merge j (completedUpdates res t)) = Some res"
  "error (merge j (failedUpdates thrown t)) = Some (conversionError thrown)"
  "error (merge j (cancelUpdates t)) = Some (ConversionError CANCELLED ''Conversion was cancelled by user.'')"
  by (simp_all add: merge_def convertingUpdates_def completedUpdates_def failedUpdates_def
      cancelUpdates_def progressUpdates_def noUpdates_def)

lemma dropAt_last [simp]: "dropAt (length xs) (xs @ [x]) = xs"
  by (simp add: dropAt_def)

section \<open>The success path of a job\<close>

text \<open>
  Claim C8, as the code has it.  No operation of the hook assigns the status \<open>finalizing\<close>:
  when no record is submitted with it, no record has it in any reachable state and no
  pending update writes it.  \<^verbatim>\<open>startQueue\<close>, called on a hook with no update pending, the
  flag clear and \<open>n\<close> the first queued record, enqueues the updater that marks \<open>n\<close>
  \<open>initializing\<close> and then the write of \<open>converting\<close>, and hands \<open>n\<close> to the conversion
  service; the render applies the two in this order.  When the service resolves, the call
  enqueues the write of \<open>completed\<close> (with the result), the clearing of the active job and
  the deferred updater of the next iteration, and the render applies them in this order.  So
  the record of \<open>n\<close> goes \<open>queued\<close>, \<open>initializing\<close>, \<open>converting\<close>, \<open>completed\<close>, the last
  write landing on a \<open>converting\<close> record; ids being unique in the store, \<open>completed\<close> is
  also its status after the second render.
\<close>

theorem success_path:
  assumes idle: "pending c = []" and stopped: "\<not> processingRef (hook c)"
    and found: "find (\<lambda>j. status j = queued) (jobs (queue (hook c))) = Some n"
    and c1: "c1 = step (StartQueue t0) c"
    and c2: "c2 = step (Render t1) c1"
    and c3: "c3 = step (ConvertResolved (length (suspended (hook c))) res t2 t3) c2"
    and c4: "c4 = step (Render t4) c3"
  shows "pending c1 = [USelect (Some t0), UUpdateJob (jobId n) convertingUpdates]
    \<and> suspended (hook c1) = suspended (hook c) @ [AwaitConvert n]
    \<and> convertCalls (hook c1) = convertCalls (hook c) @ [n]
    \<and> hook c2 = applyUpdate t1 (UUpdateJob (jobId n) convertingUpdates)
                   (applyUpdate t1 (USelect (Some t0)) (hook c1))
    \<and> pending c3 = [UUpdateJob (jobId n) (completedUpdates res t2), UClearActive, USelect None]
    \<and> hook c4 = applyUpdate t4 (USelect None) (applyUpdate t4 UClearActive
                   (applyUpdate t4 (UUpdateJob (jobId n) (completedUpdates res t2)) (hook c3)))
    \<and> (\<exists>i < length (jobs (queue (hook c))).
          jobs (queue (hook c)) ! i = n
          \<and> status (jobs (queue (hook c1)) ! i) = queued
          \<and> status (jobs (queue (applyUpdate t1 (USelect (Some t0)) (hook c1))) ! i) = initializing
          \<and> status (jobs (queue (hook c2)) ! i) = converting
          \<and> status (jobs (queue (hook c3)) ! i) = converting
          \<and> status (jobs (queue (applyUpdate t4 (UUpdateJob (jobId n) (completedUpdates res t2))
                (hook c3))) ! i) = completed
          \<and> result (jobs (queue (applyUpdate t4 (UUpdateJob (jobId n) (completedUpdates res t2))
                (hook c3))) ! i) = Some res
          \<and> (distinct (map jobId (jobs (queue (hook c)))) \<longrightarrow>
                status (jobs (queue (hook c4)) ! i) = completed))
    \<and> (list_all (\<lambda>e. list_all (\<lambda>j. status j \<noteq> finalizing) (submitted e)) es \<longrightarrow>
          noneFinalizing (queue (hook (run es initialFiber)))
          \<and> list_all (updateOk (\<lambda>j. status j \<noteq> finalizing) (\<lambda>u. upd_status u \<noteq> Some finalizing))
                (pending (run es initialFiber)))"
proof -
  let ?q = "queue (hook c)"
  let ?mark = "\<lambda>j. if jobId j = jobId n then j\<lparr>status := initializing, startedAt := Some t0\<rparr> else j"
  have c1': "c1 = withHook (\<lambda>st. st\<lparr>suspended := suspended st @ [AwaitConvert n],
                        convertCalls := convertCalls st @ [n]\<rparr>)
       (enqueue (UUpdateJob (jobId n) convertingUpdates) (enqueue (USelect (Some t0))
          (withHook (\<lambda>st. st\<lparr>processingRef := True\<rparr>) c)))"
    using stopped idle found
    by (simp add: c1 startQueue_def loopTop_idle withHook_def)
  have p1: "pending c1 = [USelect (Some t0), UUpdateJob (jobId n) convertingUpdates]"
    and s1: "suspended (hook c1) = suspended (hook c) @ [AwaitConvert n]"
    and v1: "convertCalls (hook c1) = convertCalls (hook c) @ [n]"
    and q1: "queue (hook c1) = ?q"
    using idle by (simp_all add: c1' withHook_def enqueue_def)
  have h2: "hook c2 = applyUpdate t1 (UUpdateJob (jobId n) convertingUpdates)
                   (applyUpdate t1 (USelect (Some t0)) (hook c1))"
    and p2: "pending c2 = []"
    by (simp_all add: c2 render_def p1)
  have s2: "suspended (hook c2) = suspended (hook c) @ [AwaitConvert n]"
    by (simp add: h2 s1)
  have c3': "c3 = afterConvert n res t2 t3 (resume (length (suspended (hook c))) c2)"
    by (simp add: c3 s2)
  have p3: "pending c3 = [UUpdateJob (jobId n) (completedUpdates res t2), UClearActive, USelect None]"
    and q3: "queue (hook c3) = queue (hook c2)"
    by (simp_all add: c3' afterConvert_ends withHook_def enqueue_def resume_def p2)
  have h4: "hook c4 = applyUpdate t4 (USelect None) (applyUpdate t4 UClearActive
                   (applyUpdate t4 (UUpdateJob (jobId n) (completedUpdates res t2)) (hook c3)))"
    by (simp add: c4 render_def p3)
  from found obtain i where i: "i < length (jobs ?q)" "status (jobs ?q ! i) = queued"
    "n = jobs ?q ! i"
    by (auto simp: find_Some_iff)
  have sel: "jobs (snd (selectNext t0 (queue (hook c1)))) = map ?mark (jobs ?q)"
    using found by (simp add: q1 jobs_selectNext)
  have st_init: "status (jobs (queue (applyUpdate t1 (USelect (Some t0)) (hook c1))) ! i)
      = initializing"
    using i by (simp add: sel)
  have j2: "jobs (queue (hook c2)) =
      map (\<lambda>j. if jobId j = jobId n then merge j convertingUpdates else j) (map ?mark (jobs ?q))"
    by (simp add: h2 jobs_updateJob sel del: map_map)
  have st_conv: "status (jobs (queue (hook c2)) ! i) = converting"
    using i by (simp add: j2)
  have id2: "jobId (jobs (queue (hook c2)) ! i) = jobId n"
    using i by (simp add: j2)
  have len2: "length (jobs (queue (hook c2))) = length (jobs ?q)"
    by (simp add: j2)
  let ?h = "applyUpdate t4 (UUpdateJob (jobId n) (completedUpdates res t2)) (hook c3)"
  have j3: "jobs (updateJob (jobId n) (completedUpdates res t2) (queue (hook c3))) =
      map (\<lambda>j. if jobId j = jobId n then merge j (completedUpdates res t2) else j)
        (jobs (queue (hook c2)))"
    by (simp add: jobs_updateJob q3)
  have st_done: "status (jobs (queue ?h) ! i) = completed"
    using i(1) id2 len2 by (simp add: j3)
  have res_done: "result (jobs (queue ?h) ! i) = Some res"
    using i(1) id2 len2 by (simp add: j3)
  have st_final: "status (jobs (queue (hook c4)) ! i) = completed"
    if d: "distinct (map jobId (jobs ?q))"
  proof -
    let ?q3 = "clearActive (queue ?h)"
    have ids: "map jobId (jobs ?q3) = map jobId (jobs ?q)"
      by (simp add: clearActive_def j3 j2 comp_def)
    have "distinct (map jobId (jobs ?q3))" using d ids by simp
    moreover have "i < length (jobs ?q3)" using i(1) len2 by (simp add: clearActive_def j3)
    moreover have "status (jobs ?q3 ! i) \<noteq> queued" using st_done by (simp add: clearActive_def)
    ultimately have "jobs (snd (selectNext t4 ?q3)) ! i = jobs ?q3 ! i"
      by (rule selectNext_other)
    then show ?thesis using st_done by (simp add: h4 clearActive_def)
  qed
  have path: "\<exists>i < length (jobs (queue (hook c))).
          jobs (queue (hook c)) ! i = n
          \<and> status (jobs (queue (hook c1)) ! i) = queued
          \<and> status (jobs (queue (applyUpdate t1 (USelect (Some t0)) (hook c1))) ! i) = initializing
          \<and> status (jobs (queue (hook c2)) ! i) = converting
          \<and> status (jobs (queue (hook c3)) ! i) = converting
          \<and> status (jobs (queue ?h) ! i) = completed
          \<and> result (jobs (queue ?h) ! i) = Some res
          \<and> (distinct (map jobId (jobs (queue (hook c)))) \<longrightarrow>
                status (jobs (queue (hook c4)) ! i) = completed)"
    using i st_init st_conv st_done res_done st_final by (intro exI [of _ i]) (simp add: q1 q3)
  have never: "noneFinalizing (queue (hook (run es initialFiber)))
          \<and> list_all (updateOk (\<lambda>j. status j \<noteq> finalizing) (\<lambda>u. upd_status u \<noteq> Some finalizing))
                (pending (run es initialFiber))"
    if "list_all (\<lambda>e. list_all (\<lambda>j. status j \<noteq> finalizing) (submitted e)) es"
    using keeps_run [OF hookKeeps_finalizing keeps_initial that]
    by (simp add: keeps_def noneFinalizing_def)
  show ?thesis using p1 s1 v1 h2 p3 h4 path never by blast
qed

theorem success_path_witness:
  "pending (run [AddJob jobA, AddJob jobB, Render 2] initialFiber) = []
   \<and> \<not> processingRef (hook (run [AddJob jobA, AddJob jobB, Render 2] initialFiber))
   \<and> find (\<lambda>j. status j = queued) (jobs (queue (hook (run [AddJob jobA, AddJob jobB, Render 2] initialFiber))))
       = Some jobA
   \<and> list_all (\<lambda>e. list_all (\<lambda>j. status j \<noteq> finalizing) (submitted e))
        [AddJob jobA, AddJob jobB, Render 2, StartQueue 3, Render 4,
         ConvertResolved 0 sampleResult 5 6, Render 7]
   \<and> pending (step (StartQueue 3) (run [AddJob jobA, AddJob jobB, Render 2] initialFiber))
       = [USelect (Some 3), UUpdateJob (jobId jobA) convertingUpdates]
   \<and> pending (step (ConvertResolved
          (length (suspended (hook (run [AddJob jobA, AddJob jobB, Render 2] initialFiber))))
          sampleResult 5 6)
        (step (Render 4) (step (StartQueue 3) (run [AddJob jobA, AddJob jobB, Render 2] initialFiber))))
       = [UUpdateJob (jobId jobA) (completedUpdates sampleResult 5), UClearActive, USelect None]
   \<and> noneFinalizing (queue (hook (run [AddJob jobA, AddJob jobB, Render 2, StartQueue 3, Render 4,
         ConvertResolved 0 sampleResult 5 6, Render 7] initialFiber)))
   \<and> map status (jobs (queue (hook (run [AddJob jobA, AddJob jobB, Render 2, StartQueue 3, Render 4]
        initialFiber)))) = [converting, queued]
   \<and> map status (jobs (queue (hook (run [AddJob jobA, AddJob jobB, Render 2, StartQueue 3, Render 4,
         ConvertResolved 0 sampleResult 5 6, Render 7] initialFiber)))) = [completed, initializing]"
proof -
  let ?c = "run [AddJob jobA, AddJob jobB, Render 2] initialFiber"
  let ?es = "[AddJob jobA, AddJob jobB, Render 2, StartQueue 3, Render 4,
         ConvertResolved 0 sampleResult 5 6, Render 7]"
  have idle: "pending ?c = []"
    by (simp add: ops_defs)
  have stopped: "\<not> processingRef (hook ?c)"
    by (simp add: ops_defs)
  have found: "find (\<lambda>j. status j = queued) (jobs (queue (hook ?c))) = Some jobA"
    by (simp add: ops_defs)
  have sub: "list_all (\<lambda>e. list_all (\<lambda>j. status j \<noteq> finalizing) (submitted e)) ?es"
    by (simp add: ops_defs)
  note path = success_path [OF idle stopped found refl refl refl refl,
      where ?t0.0 = 3 and ?t1.0 = 4 and res = sampleResult and ?t2.0 = 5 and ?t3.0 = 6
        and ?t4.0 = 7 and es = ?es]
  have first: "pending (step (StartQueue 3) ?c)
      = [USelect (Some 3), UUpdateJob (jobId jobA) convertingUpdates]"
    using path by (rule conjunct1)
  have third: "pending (step (ConvertResolved (length (suspended (hook ?c))) sampleResult 5 6)
        (step (Render 4) (step (StartQueue 3) ?c)))
      = [UUpdateJob (jobId jobA) (completedUpdates sampleResult 5), UClearActive, USelect None]"
    using path by blast
  have never: "noneFinalizing (queue (hook (run ?es initialFiber)))"
    using path sub by blast
  have conv: "map status (jobs (queue (hook (run [AddJob jobA, AddJob jobB, Render 2, StartQueue 3,
        Render 4] initialFiber)))) = [converting, queued]"
    by (simp add: ops_defs)
  have fin: "map status (jobs (queue (hook (run ?es initialFiber)))) = [completed, initializing]"
    by (simp add: ops_defs)
  show ?thesis
    using idle stopped found sub first third never conv fin by blast
qed

text \<open>
  Against claim C8 as stated: the one job of a queue is started and its conversion resolves.
  Its status is \<open>queued\<close>, then \<open>initializing\<close> and \<open>converting\<close> within the first render,
  still \<open>converting\<close> when the service resolves, and \<open>completed\<close> by the next write;
  \<open>finalizing\<close> is not on the way.
\<close>

theorem success_path_counterexample:
  "map status (jobs (queue (hook (run [AddJob jobA, Render 2] initialFiber)))) = [queued]
   \<and> pending (run [AddJob jobA, Render 2, StartQueue 3] initialFiber)
       = [USelect (Some 3), UUpdateJob ''a'' convertingUpdates]
   \<and> map status (jobs (queue (applyUpdate 4 (USelect (Some 3))
        (hook (run [AddJob jobA, Render 2, StartQueue 3] initialFiber))))) = [initializing]
   \<and> map status (jobs (queue (hook (run [AddJob jobA, Render 2, StartQueue 3, Render 4]
        initialFiber)))) = [converting]
   \<and> pending (run [AddJob jobA, Render 2, StartQueue 3, Render 4,
        ConvertResolved 0 sampleResult 5 6] initialFiber)
       = [UUpdateJob ''a'' (completedUpdates sampleResult 5), UClearActive, USelect None]
   \<and> map status (jobs (queue (hook (run [AddJob jobA, Render 2, StartQueue 3, Render 4,
        ConvertResolved 0 sampleResult 5 6] initialFiber)))) = [converting]
   \<and> map status (jobs (queue (applyUpdate 7 (UUpdateJob ''a'' (completedUpdates sampleResult 5))
        (hook (run [AddJob jobA, Render 2, StartQueue 3, Render 4,
          ConvertResolved 0 sampleResult 5 6] initialFiber))))) = [completed]
   \<and> map status (jobs (queue (hook (run [AddJob jobA, Render 2, StartQueue 3, Render 4,
        ConvertResolved 0 sampleResult 5 6, Render 7] initialFiber)))) = [completed]"
  by (simp add: ops_defs)

section \<open>Error and result against status\<close>




section \<open>Start requests and the jobs left behind\<close>

text \<open>
  Claim C1 at three queued jobs \<open>a\<close>, \<open>b\<close>, \<open>c\<close> and two start requests in quick
  succession.  The second request finds the flag set and changes nothing.  When the
  conversion of \<open>a\<close> resolves, the loop ends: \<open>a\<close> is \<open>completed\<close>, \<open>b\<close> is marked
  \<open>initializing\<close> at the render but was never handed to the conversion service, \<open>c\<close> is
  still \<open>queued\<close>, nothing is suspended and the flag is clear.  Further start requests
  convert \<open>c\<close> and then find nothing queued: \<open>b\<close> stays \<open>initializing\<close> and the service was
  called for \<open>a\<close> and \<open>c\<close> only, so not every queued job is processed.
\<close>

theorem startQueue_strands_queued_jobs:
  "processingRef (hook (run [AddJob jobA, AddJob jobB, AddJob jobC, Render 2, StartQueue 3] initialFiber))
   \<and> step (StartQueue 4) (run [AddJob jobA, AddJob jobB, AddJob jobC, Render 2, StartQueue 3] initialFiber)
       = run [AddJob jobA, AddJob jobB, AddJob jobC, Render 2, StartQueue 3] initialFiber
   \<and> map status (jobs (queue (hook (run [AddJob jobA, AddJob jobB, AddJob jobC, Render 2, StartQueue 3,
        StartQueue 4, Render 5, ConvertResolved 0 sampleResult 6 7, Render 8] initialFiber))))
       = [completed, initializing, queued]
   \<and> convertCalls (hook (run [AddJob jobA, AddJob jobB, AddJob jobC, Render 2, StartQueue 3,
        StartQueue 4, Render 5, ConvertResolved 0 sampleResult 6 7, Render 8] initialFiber)) = [jobA]
   \<and> suspended (hook (run [AddJob jobA, AddJob jobB, AddJob jobC, Render 2, StartQueue 3,
        StartQueue 4, Render 5, ConvertResolved 0 sampleResult 6 7, Render 8] initialFiber)) = []
   \<and> pending (run [AddJob jobA, AddJob jobB, AddJob jobC, Render 2, StartQueue 3,
        StartQueue 4, Render 5, ConvertResolved 0 sampleResult 6 7, Render 8] initialFiber) = []
   \<and> \<not> processingRef (hook (run [AddJob jobA, AddJob jobB, AddJob jobC, Render 2, StartQueue 3,
        StartQueue 4, Render 5, ConvertResolved 0 sampleResult 6 7, Render 8] initialFiber))
   \<and> map status (jobs (queue (hook (run [AddJob jobA, AddJob jobB, AddJob jobC, Render 2, StartQueue 3,
        StartQueue 4, Render 5, ConvertResolved 0 sampleResult 6 7, Render 8,
        StartQueue 9, Render 10, ConvertResolved 0 sampleResult 11 12, Render 13,
        StartQueue 14, Render 15] initialFiber))))
       = [completed, initializing, completed]
   \<and> convertCalls (hook (run [AddJob jobA, AddJob jobB, AddJob jobC, Render 2, StartQueue 3,
        StartQueue 4, Render 5, ConvertResolved 0 sampleResult 6 7, Render 8,
        StartQueue 9, Render 10, ConvertResolved 0 sampleResult 11 12, Render 13,
        StartQueue 14, Render 15] initialFiber)) = [jobA, jobC]
   \<and> suspended (hook (run [AddJob jobA, AddJob jobB, AddJob jobC, Render 2, StartQueue 3,
        StartQueue 4, Render 5, ConvertResolved 0 sampleResult 6 7, Render 8,
        StartQueue 9, Render 10, ConvertResolved 0 sampleResult 11 12, Render 13,
        StartQueue 14, Render 15] initialFiber)) = []
   \<and> pending (run [AddJob jobA, AddJob jobB, AddJob jobC, Render 2, StartQueue 3,
        StartQueue 4, Render 5, ConvertResolved 0 sampleResult 6 7, Render 8,
        StartQueue 9, Render 10, ConvertResolved 0 sampleResult 11 12, Render 13,
        StartQueue 14, Render 15] initialFiber) = []"
  by (simp add: ops_defs)

text \<open>
  Claim C2 at two reachable states.  In the first, \<^verbatim>\<open>clearAll\<close> is called while the
  conversion of \<open>a\<close> is awaited, \<open>b\<close> and \<open>c\<close> are submitted and the queue is started again;
  when the conversion of \<open>a\<close> resolves, its loop marks \<open>c\<close> while \<open>b\<close> is converting.  In
  the second, the queue is started again after the loop has ended with \<open>b\<close> marked
  \<open>initializing\<close>.  Each state holds two records with a status among \<open>initializing\<close>,
  \<open>converting\<close>, \<open>finalizing\<close>, with one conversion outstanding.
\<close>

theorem single_flight_violated:
  "map status (jobs (queue (hook (run [AddJob jobA, Render 2, StartQueue 3, Render 4, ClearAll,
        AddJob jobB, AddJob jobC, Render 5, StartQueue 6, Render 7,
        ConvertResolved 0 sampleResult 8 9, Render 10] initialFiber))))
       = [converting, initializing]
   \<and> activeCount (statistics (hook (run [AddJob jobA, Render 2, StartQueue 3, Render 4, ClearAll,
        AddJob jobB, AddJob jobC, Render 5, StartQueue 6, Render 7,
        ConvertResolved 0 sampleResult 8 9, Render 10] initialFiber))) = 2
   \<and> convertCalls (hook (run [AddJob jobA, Render 2, StartQueue 3, Render 4, ClearAll,
        AddJob jobB, AddJob jobC, Render 5, StartQueue 6, Render 7,
        ConvertResolved 0 sampleResult 8 9, Render 10] initialFiber)) = [jobA, jobB]
   \<and> suspended (hook (run [AddJob jobA, Render 2, StartQueue 3, Render 4, ClearAll,
        AddJob jobB, AddJob jobC, Render 5, StartQueue 6, Render 7,
        ConvertResolved 0 sampleResult 8 9, Render 10] initialFiber)) = [AwaitConvert jobB]
   \<and> map status (jobs (queue (hook (run [AddJob jobA, AddJob jobB, AddJob jobC, Render 2, StartQueue 3,
        Render 4, ConvertResolved 0 sampleResult 5 6, Render 7, StartQueue 8, Render 9] initialFiber))))
       = [completed, initializing, converting]
   \<and> activeCount (statistics (hook (run [AddJob jobA, AddJob jobB, AddJob jobC, Render 2, StartQueue 3,
        Render 4, ConvertResolved 0 sampleResult 5 6, Render 7, StartQueue 8, Render 9] initialFiber))) = 2
   \<and> suspended (hook (run [AddJob jobA, AddJob jobB, AddJob jobC, Render 2, StartQueue 3,
        Render 4, ConvertResolved 0 sampleResult 5 6, Render 7, StartQueue 8, Render 9] initialFiber))
       = [AwaitConvert jobC]"
  by (simp add: ops_defs statistics_def)

text \<open>
  Claim C3 at the jobs \<open>a\<close>, \<open>b\<close> where the conversion of \<open>a\<close> is rejected.  The record of
  \<open>a\<close> gets the status \<open>failed\<close>, the error thrown (or \<open>Unknown error\<close> when what was thrown
  is not an \<open>Error\<close>) and \<open>completedAt\<close>.  The loop then ends: at the render \<open>b\<close> is marked
  \<open>initializing\<close> and made the active job, but it is never handed to the conversion
  service, nothing is suspended, the flag is clear, and a further start request finds
  nothing queued.  So \<open>b\<close> does not reach \<open>completed\<close>.
\<close>

theorem failure_strands_next_job:
  "map status (jobs (queue (hook (run [AddJob jobA, AddJob jobB, Render 2, StartQueue 3, Render 4,
        ConvertRejected 0 (ThrownError (Error ''boom'')) 5 6, Render 7] initialFiber))))
       = [failed, initializing]
   \<and> map error (jobs (queue (hook (run [AddJob jobA, AddJob jobB, Render 2, StartQueue 3, Render 4,
        ConvertRejected 0 (ThrownError (Error ''boom'')) 5 6, Render 7] initialFiber))))
       = [Some (Error ''boom''), None]
   \<and> map completedAt (jobs (queue (hook (run [AddJob jobA, AddJob jobB, Render 2, StartQueue 3, Render 4,
        ConvertRejected 0 (ThrownError (Error ''boom'')) 5 6, Render 7] initialFiber))))
       = [Some 5, None]
   \<and> map error (jobs (queue (hook (run [AddJob jobA, AddJob jobB, Render 2, StartQueue 3, Render 4,
        ConvertRejected 0 (ThrownOther ''boom'') 5 6, Render 7] initialFiber))))
       = [Some (Error ''Unknown error''), None]
   \<and> activeJob (queue (hook (run [AddJob jobA, AddJob jobB, Render 2, StartQueue 3, Render 4,
        ConvertRejected 0 (ThrownError (Error ''boom'')) 5 6, Render 7] initialFiber))) = Some jobB
   \<and> convertCalls (hook (run [AddJob jobA, AddJob jobB, Render 2, StartQueue 3, Render 4,
        ConvertRejected 0 (ThrownError (Error ''boom'')) 5 6, Render 7] initialFiber)) = [jobA]
   \<and> suspended (hook (run [AddJob jobA, AddJob jobB, Render 2, StartQueue 3, Render 4,
        ConvertRejected 0 (ThrownError (Error ''boom'')) 5 6, Render 7] initialFiber)) = []
   \<and> pending (run [AddJob jobA, AddJob jobB, Render 2, StartQueue 3, Render 4,
        ConvertRejected 0 (ThrownError (Error ''boom'')) 5 6, Render 7] initialFiber) = []
   \<and> \<not> processingRef (hook (run [AddJob jobA, AddJob jobB, Render 2, StartQueue 3, Render 4,
        ConvertRejected 0 (ThrownError (Error ''boom'')) 5 6, Render 7] initialFiber))
   \<and> step (StartQueue 8) (run [AddJob jobA, AddJob jobB, Render 2, StartQueue 3, Render 4,
        ConvertRejected 0 (ThrownError (Error ''boom'')) 5 6, Render 7] initialFiber)
       = run [AddJob jobA, AddJob jobB, Render 2, StartQueue 3, Render 4,
        ConvertRejected 0 (ThrownError (Error ''boom'')) 5 6, Render 7] initialFiber"
  by (simp add: ops_defs)

section \<open>Cancellation of a finished job\<close>

text \<open>
  Claim C7 at a completed, a failed and a cancelled record.  \<^verbatim>\<open>cancelJob\<close> on the completed
  record sets its status to \<open>cancelled\<close>, attaches the \<open>CANCELLED\<close> error and stamps
  \<open>completedAt\<close> anew; on the failed record it also replaces the error; on the cancelled
  record it stamps \<open>completedAt\<close> anew.
\<close>

theorem cancelJob_overwrites_terminal:
  "map status (jobs (queue (hook (run [AddJob jobA, Render 2, StartQueue 3, Render 4,
        ConvertResolved 0 sampleResult 5 6, Render 7] initialFiber)))) = [completed]
   \<and> map error (jobs (queue (hook (run [AddJob jobA, Render 2, StartQueue 3, Render 4,
        ConvertResolved 0 sampleResult 5 6, Render 7] initialFiber)))) = [None]
   \<and> map completedAt (jobs (queue (hook (run [AddJob jobA, Render 2, StartQueue 3, Render 4,
        ConvertResolved 0 sampleResult 5 6, Render 7] initialFiber)))) = [Some 5]
   \<and> map status (jobs (queue (hook (run [AddJob jobA, Render 2, StartQueue 3, Render 4,
        ConvertResolved 0 sampleResult 5 6, Render 7, CancelJob ''a'' 8, Render 9] initialFiber))))
       = [cancelled]
   \<and> map error (jobs (queue (hook (run [AddJob jobA, Render 2, StartQueue 3, Render 4,
        ConvertResolved 0 sampleResult 5 6, Render 7, CancelJob ''a'' 8, Render 9] initialFiber))))
       = [Some (ConversionError CANCELLED ''Conversion was cancelled by user.'')]
   \<and> map completedAt (jobs (queue (hook (run [AddJob jobA, Render 2, StartQueue 3, Render 4,
        ConvertResolved 0 sampleResult 5 6, Render 7, CancelJob ''a'' 8, Render 9] initialFiber))))
       = [Some 8]
   \<and> map error (jobs (queue (hook (run [AddJob jobA, Render 2, StartQueue 3, Render 4,
        ConvertRejected 0 (ThrownError (Error ''boom'')) 5 6, Render 7] initialFiber))))
       = [Some (Error ''boom'')]
   \<and> map status (jobs (queue (hook (run [AddJob jobA, Render 2, StartQueue 3, Render 4,
        ConvertRejected 0 (ThrownError (Error ''boom'')) 5 6, Render 7, CancelJob ''a'' 8, Render 9]
        initialFiber)))) = [cancelled]
   \<and> map error (jobs (queue (hook (run [AddJob jobA, Render 2, StartQueue 3, Render 4,
        ConvertRejected 0 (ThrownError (Error ''boom'')) 5 6, Render 7, CancelJob ''a'' 8, Render 9]
        initialFiber)))) = [Some (ConversionError CANCELLED ''Conversion was cancelled by user.'')]
   \<and> map completedAt (jobs (queue (hook (run [AddJob jobA, Render 2, CancelJob ''a'' 3, Render 4]
        initialFiber)))) = [Some 3]
   \<and> map completedAt (jobs (queue (hook (run [AddJob jobA, Render 2, CancelJob ''a'' 3, Render 4,
        CancelJob ''a'' 5, Render 6] initialFiber)))) = [Some 5]"
  by (simp add: ops_defs)

end
